theory Spec2Isabelle
  imports Main "HOL-Library.Word"
begin

section \<open>Machine types of the headers\<close>

text \<open>
  \<^verbatim>\<open>pid_t\<close> is a signed 32-bit integer (read with \<open>sint\<close>), \<^verbatim>\<open>mode_t\<close> is the
  16-bit mode of the macOS headers, \<^verbatim>\<open>errno\<close> is a C \<^verbatim>\<open>int\<close> that the model never
  computes with and keeps as \<open>int\<close>. \<^verbatim>\<open>es_event_type_t\<close> is the C enumeration of
  \<^verbatim>\<open>stdafx-linux.h\<close>; the model keeps its enumerators as their ordinals, which is what
  the stream operators and \<^verbatim>\<open>max_size\<close> see.
\<close>

type_synonym pid_t = "32 word"
type_synonym mode_t = "16 word"
type_synonym errno_t = int
type_synonym es_event_type_t = "32 word"

text \<open>The enumerators named by the macros of \<^verbatim>\<open>Detours.hpp\<close>, at their position in the enum.\<close>

definition ES_EVENT_TYPE_NOTIFY_EXEC :: es_event_type_t where
  "ES_EVENT_TYPE_NOTIFY_EXEC = 9"

definition ES_EVENT_TYPE_NOTIFY_FORK :: es_event_type_t where
  "ES_EVENT_TYPE_NOTIFY_FORK = 11"

definition ES_EVENT_TYPE_NOTIFY_CREATE :: es_event_type_t where
  "ES_EVENT_TYPE_NOTIFY_CREATE = 13"

definition ES_EVENT_TYPE_NOTIFY_EXIT :: es_event_type_t where
  "ES_EVENT_TYPE_NOTIFY_EXIT = 15"

definition ES_EVENT_TYPE_NOTIFY_WRITE :: es_event_type_t where
  "ES_EVENT_TYPE_NOTIFY_WRITE = 33"

definition ES_EVENT_TYPE_NOTIFY_STAT :: es_event_type_t where
  "ES_EVENT_TYPE_NOTIFY_STAT = 54"

definition ES_EVENT_TYPE_LAST :: es_event_type_t where
  "ES_EVENT_TYPE_LAST = 88"

text \<open>\<^verbatim>\<open>audit_token_t\<close>: \<^verbatim>\<open>struct { unsigned int val[8]; }\<close>.\<close>

type_synonym audit_token_t = "32 word list"

section \<open>The event record (IOEvent.hpp)\<close>

text \<open>
  \<^verbatim>\<open>struct IOEvent\<close>. The members \<^verbatim>\<open>oppid_\<close> and \<^verbatim>\<open>auditToken_\<close> have no default
  member initialiser, so a constructor that does not assign them leaves them
  indeterminate: they are options, \<open>None\<close> for "never assigned". Every other member
  is assigned by each constructor modelled here. The trailing underscore of the
  member names is replaced by the prefix \<open>m_\<close>.
\<close>

record IOEvent =
  m_pid :: pid_t
  m_cpid :: pid_t
  m_ppid :: pid_t
  m_eventType :: es_event_type_t
  m_mode :: mode_t
  m_modified :: bool
  m_executable :: string
  m_src_path :: string
  m_dst_path :: string
  m_oppid :: "pid_t option"
  m_auditToken :: "audit_token_t option"

text \<open>
  A failed \<^verbatim>\<open>assert\<close> aborts the process: the constructing call has no result. The
  second failure is the one of the kernel-message constructor, for an event type it
  has no extraction rule for.
\<close>

datatype failure = AssertionFailed | UnhandledEvent es_event_type_t

text \<open>
  The operating system as the header uses it. \<^verbatim>\<open>stat\<close> either fails, returning
  \<open>-1\<close> and setting \<^verbatim>\<open>errno\<close> (\<open>Inl\<close> of the error number), or succeeds with the
  \<^verbatim>\<open>st_mode\<close> of the path (\<open>Inr\<close>). \<^verbatim>\<open>get_executable_path\<close> and
  \<^verbatim>\<open>send_to_sandbox\<close> are defined outside these headers; they are parameters, and
  each may leave any value in \<^verbatim>\<open>errno\<close> (\<open>exe_errno\<close>, \<open>send_errno\<close>: the value
  after the call, from the value before).
\<close>

record os_env =
  getpid :: pid_t
  getppid :: pid_t
  stat :: "string \<Rightarrow> errno_t + mode_t"
  get_executable_path :: "pid_t \<Rightarrow> string"
  exe_errno :: "pid_t \<Rightarrow> errno_t \<Rightarrow> errno_t"
  send_errno :: "IOEvent \<Rightarrow> errno_t \<Rightarrow> errno_t"

text \<open>\<^verbatim>\<open>src != nullptr ? std::string(src) : std::string("")\<close>, a null pointer being \<open>None\<close>.\<close>

definition string_of_cstr :: "string option \<Rightarrow> string" where
  "string_of_cstr p = (case p of None \<Rightarrow> [] | Some s \<Rightarrow> s)"

text \<open>
  The constructor from raw identifiers that can query the mode (lines 62 to 85). It
  takes the value of \<^verbatim>\<open>errno\<close> before the call and returns the one after it, since
  a failing \<^verbatim>\<open>stat\<close> sets it. \<^verbatim>\<open>mode_\<close> starts from its default member initialiser 0.
\<close>

definition IOEvent_raw ::
  "os_env \<Rightarrow> pid_t \<Rightarrow> pid_t \<Rightarrow> pid_t \<Rightarrow> es_event_type_t \<Rightarrow> string option \<Rightarrow> string option
     \<Rightarrow> string \<Rightarrow> bool \<Rightarrow> bool \<Rightarrow> errno_t \<Rightarrow> failure + (IOEvent \<times> errno_t)" where
  "IOEvent_raw os pid cpid ppid type src dst exec get_mode modified e =
     (if exec = [] then Inl AssertionFailed
      else
        let src_path = string_of_cstr src;
            dst_path = string_of_cstr dst;
            queried = (if get_mode
                       then (case stat os src_path of
                               Inr st_mode \<Rightarrow> (st_mode, e)
                             | Inl err \<Rightarrow> (0, err))
                       else (0, e))
        in Inr (\<lparr> m_pid = pid, m_cpid = cpid, m_ppid = ppid, m_eventType = type,
                  m_mode = fst queried, m_modified = modified, m_executable = exec,
                  m_src_path = src_path, m_dst_path = dst_path,
                  m_oppid = Some ppid, m_auditToken = None \<rparr>, snd queried))"

text \<open>The constructor from raw identifiers with an explicit mode (lines 87 to 98).\<close>

definition IOEvent_raw_mode ::
  "pid_t \<Rightarrow> pid_t \<Rightarrow> pid_t \<Rightarrow> es_event_type_t \<Rightarrow> string \<Rightarrow> string
     \<Rightarrow> string \<Rightarrow> mode_t \<Rightarrow> bool \<Rightarrow> IOEvent" where
  "IOEvent_raw_mode pid cpid ppid type src dst exec mode modified =
     \<lparr> m_pid = pid, m_cpid = cpid, m_ppid = ppid, m_eventType = type,
       m_mode = mode, m_modified = modified, m_executable = exec,
       m_src_path = src, m_dst_path = dst,
       m_oppid = Some ppid, m_auditToken = None \<rparr>"

text \<open>The convenience constructor for the calling process (lines 100 to 108).\<close>

definition IOEvent_self ::
  "os_env \<Rightarrow> es_event_type_t \<Rightarrow> string \<Rightarrow> string \<Rightarrow> mode_t \<Rightarrow> bool \<Rightarrow> string \<Rightarrow> IOEvent" where
  "IOEvent_self os type src exec mode modified dest =
     IOEvent_raw_mode (getpid os) 0 (getppid os) type src dest exec mode modified"

text \<open>The getters the claims use.\<close>

definition GetOriginalParentPid :: "IOEvent \<Rightarrow> pid_t option" where
  "GetOriginalParentPid ev = m_oppid ev"

definition GetProcessAuditToken :: "IOEvent \<Rightarrow> audit_token_t option" where
  "GetProcessAuditToken ev = m_auditToken ev"

definition GetMode :: "IOEvent \<Rightarrow> mode_t" where
  "GetMode ev = m_mode ev"

definition EventPathExists :: "IOEvent \<Rightarrow> bool" where
  "EventPathExists ev = (m_mode ev \<noteq> 0)"

subsection \<open>Size accounting\<close>

text \<open>\<^verbatim>\<open>std::to_string\<close> on an integer: its decimal digits, with a sign when negative.\<close>

definition digit_char :: "nat \<Rightarrow> char" where
  "digit_char d = char_of (48 + d)"

function to_string_nat :: "nat \<Rightarrow> string" where
  "to_string_nat n =
     (if n < 10 then [digit_char n] else to_string_nat (n div 10) @ [digit_char (n mod 10)])"
  by pat_completeness auto
termination
  by (relation "measure id") auto

declare to_string_nat.simps [simp del]

definition to_string :: "int \<Rightarrow> string" where
  "to_string i = (if i < 0 then CHR ''-'' # to_string_nat (nat (- i)) else to_string_nat (nat i))"

definition PID_MAX :: int where
  "PID_MAX = 99999"

definition USHRT_MAX :: int where
  "USHRT_MAX = 65535"

text \<open>
  \<^verbatim>\<open>max_size\<close> (lines 145 to 152). \<^verbatim>\<open>PATH_MAX\<close> comes from the system's
  \<^verbatim>\<open>limits.h\<close> and is a parameter. \<^verbatim>\<open>std::to_string(true)\<close> promotes the boolean to
  \<^verbatim>\<open>int\<close>.
\<close>

definition max_size :: "nat \<Rightarrow> nat" where
  "max_size PATH_MAX =
     (3 * length (to_string PID_MAX)) +
     (2 * length (to_string USHRT_MAX)) +
     length (to_string (of_bool True)) +
     (3 * PATH_MAX) +
     9"

section \<open>The interposition macros (Detours.hpp)\<close>

text \<open>
  Modelled from the spec: the entry type \<^verbatim>\<open>PathCacheEntry\<close> of the write dedup cache is
  declared outside these headers. An entry is built from the descriptor and holds no
  other payload.
\<close>

datatype PathCacheEntry = PathCacheEntry int

text \<open>
  Modelled from the spec: the lookup of the write dedup cache \<^verbatim>\<open>trackedPaths_\<close>, which
  is declared outside these headers. The cache is a map keyed by path; \<^verbatim>\<open>get\<close> returns
  the entry, or a null pointer (\<open>None\<close>) for a path that was never inserted.
\<close>

definition trackedPaths_get :: "(string \<rightharpoonup> PathCacheEntry) \<Rightarrow> string \<Rightarrow> PathCacheEntry option" where
  "trackedPaths_get cache path = cache path"

text \<open>
  Modelled from the spec: the insertion into the write dedup cache, declared outside
  these headers. Inserting an already-present key is a no-op.
\<close>

definition trackedPaths_insert ::
  "(string \<rightharpoonup> PathCacheEntry) \<Rightarrow> string \<Rightarrow> PathCacheEntry \<Rightarrow> (string \<rightharpoonup> PathCacheEntry)" where
  "trackedPaths_insert cache path entry =
     (case cache path of None \<Rightarrow> cache(path \<mapsto> entry) | Some present \<Rightarrow> cache)"

text \<open>
  The state of the interposed process that the macros read and write: \<^verbatim>\<open>errno\<close>, the
  dedup cache, and the trace of the calls of \<^verbatim>\<open>send_to_sandbox\<close> made so far (the
  event, the type argument and the optional boolean arguments as written at the call).
\<close>

record proc_state =
  errno :: errno_t
  trackedPaths :: "string \<rightharpoonup> PathCacheEntry"
  sent :: "(IOEvent \<times> es_event_type_t \<times> bool list) list"

text \<open>
  Modelled from the spec: \<^verbatim>\<open>send_to_sandbox\<close> is defined outside these headers. It
  hands the record to the monitor, which the model logs, and may fail and leave any
  value in \<^verbatim>\<open>errno\<close>.
\<close>

definition send_to_sandbox ::
  "os_env \<Rightarrow> IOEvent \<Rightarrow> es_event_type_t \<Rightarrow> bool list \<Rightarrow> proc_state \<Rightarrow> proc_state" where
  "send_to_sandbox os event type flags s =
     s\<lparr> sent := sent s @ [(event, type, flags)], errno := send_errno os event (errno s) \<rparr>"

text \<open>
  \<^verbatim>\<open>DEFAULT_EVENT_CONSTRUCTOR(type, src, dst, mode)\<close>; \<open>result\<close> is the variable of
  the enclosing wrapper. The macro's \<^verbatim>\<open>mode\<close> is taken as the boolean
  \<^verbatim>\<open>get_mode\<close> of the querying constructor, \<^verbatim>\<open>src\<close> and \<^verbatim>\<open>dst\<close> as C strings.
\<close>

definition DEFAULT_EVENT_CONSTRUCTOR ::
  "os_env \<Rightarrow> 'r \<Rightarrow> es_event_type_t \<Rightarrow> string option \<Rightarrow> string option \<Rightarrow> bool
     \<Rightarrow> proc_state \<Rightarrow> failure + (proc_state \<times> 'r)" where
  "DEFAULT_EVENT_CONSTRUCTOR os result type src dst mode s =
     (let old_errno = errno s;
          exec = get_executable_path os (getpid os);
          s1 = s\<lparr> errno := exe_errno os (getpid os) (errno s) \<rparr>
      in case IOEvent_raw os (getpid os) 0 (getppid os) type src dst exec mode False (errno s1) of
           Inl f \<Rightarrow> Inl f
         | Inr (event, e) \<Rightarrow>
             let s2 = send_to_sandbox os event type [] (s1\<lparr> errno := e \<rparr>)
             in Inr (s2\<lparr> errno := old_errno \<rparr>, result))"

text \<open>\<^verbatim>\<open>DEFAULT_EVENT_CONSTRUCTOR_NO_RESOLVE(type, src, dst, mode, report)\<close>.\<close>

definition DEFAULT_EVENT_CONSTRUCTOR_NO_RESOLVE ::
  "os_env \<Rightarrow> 'r \<Rightarrow> es_event_type_t \<Rightarrow> string option \<Rightarrow> string option \<Rightarrow> bool \<Rightarrow> bool
     \<Rightarrow> proc_state \<Rightarrow> failure + (proc_state \<times> 'r)" where
  "DEFAULT_EVENT_CONSTRUCTOR_NO_RESOLVE os result type src dst mode report s =
     (let old_errno = errno s
      in if report
         then
           (let exec = get_executable_path os (getpid os);
                s1 = s\<lparr> errno := exe_errno os (getpid os) (errno s) \<rparr>
            in case IOEvent_raw os (getpid os) 0 (getppid os) type src dst exec True False (errno s1) of
                 Inl f \<Rightarrow> Inl f
               | Inr (event, e) \<Rightarrow>
                   let s2 = send_to_sandbox os event type [False, False] (s1\<lparr> errno := e \<rparr>)
                   in Inr (s2\<lparr> errno := old_errno \<rparr>, result))
         else Inr (s\<lparr> errno := old_errno \<rparr>, result))"

text \<open>
  \<^verbatim>\<open>EXEC_EVENT_CONSTRUCTOR(path)\<close> and \<^verbatim>\<open>EXIT_EVENT_CONSTRUCTOR()\<close>: no
  \<^verbatim>\<open>old_errno\<close>, no \<^verbatim>\<open>return\<close>; control continues after the macro.
\<close>

definition EXEC_EVENT_CONSTRUCTOR :: "os_env \<Rightarrow> string option \<Rightarrow> proc_state \<Rightarrow> failure + proc_state" where
  "EXEC_EVENT_CONSTRUCTOR os path s =
     (let exec = get_executable_path os (getpid os);
          s1 = s\<lparr> errno := exe_errno os (getpid os) (errno s) \<rparr>
      in case IOEvent_raw os (getpid os) 0 (getppid os) ES_EVENT_TYPE_NOTIFY_EXEC path (Some [])
                exec False False (errno s1) of
           Inl f \<Rightarrow> Inl f
         | Inr (event, e) \<Rightarrow>
             Inr (send_to_sandbox os event ES_EVENT_TYPE_NOTIFY_EXEC [True] (s1\<lparr> errno := e \<rparr>)))"

definition EXIT_EVENT_CONSTRUCTOR :: "os_env \<Rightarrow> proc_state \<Rightarrow> failure + proc_state" where
  "EXIT_EVENT_CONSTRUCTOR os s =
     (let exec = get_executable_path os (getpid os);
          s1 = s\<lparr> errno := exe_errno os (getpid os) (errno s) \<rparr>
      in case IOEvent_raw os (getpid os) 0 (getppid os) ES_EVENT_TYPE_NOTIFY_EXIT (Some []) (Some [])
                exec False False (errno s1) of
           Inl f \<Rightarrow> Inl f
         | Inr (event, e) \<Rightarrow>
             Inr (send_to_sandbox os event ES_EVENT_TYPE_NOTIFY_EXIT [] (s1\<lparr> errno := e \<rparr>)))"

text \<open>
  Modelled from the spec: the exec-style wrapper, which is outside these headers. The
  spec gives it a single fixed-shape construction with no conditional logic, and the
  macro has neither \<open>result\<close> nor \<^verbatim>\<open>return\<close>: the wrapper reports first, then makes
  the real call and returns what that call returns. The real call is a parameter, from
  the state it starts in to the state and result it returns with; where it does not
  return (a successful exec) the wrapper does not return either.
\<close>

definition exec_wrapper ::
  "os_env \<Rightarrow> string option \<Rightarrow> (proc_state \<Rightarrow> proc_state \<times> 'r) \<Rightarrow> proc_state
     \<Rightarrow> failure + (proc_state \<times> 'r)" where
  "exec_wrapper os path real_call s =
     (case EXEC_EVENT_CONSTRUCTOR os path s of
        Inl f \<Rightarrow> Inl f
      | Inr s1 \<Rightarrow> Inr (real_call s1))"

text \<open>
  Modelled from the spec: the exit-style wrapper, which is outside these headers; the
  same shape as the exec-style one, with the macro ahead of the real call.
\<close>

definition exit_wrapper ::
  "os_env \<Rightarrow> (proc_state \<Rightarrow> proc_state \<times> 'r) \<Rightarrow> proc_state \<Rightarrow> failure + (proc_state \<times> 'r)" where
  "exit_wrapper os real_call s =
     (case EXIT_EVENT_CONSTRUCTOR os s of
        Inl f \<Rightarrow> Inl f
      | Inr s1 \<Rightarrow> Inr (real_call s1))"

text \<open>
  \<^verbatim>\<open>FORK_EVENT_CONSTRUCTOR(result, child_pid, pid, ppid, cmp)\<close>. \<^verbatim>\<open>cmp\<close> is the
  comparison operator pasted between \<^verbatim>\<open>result\<close> and \<open>0\<close>; \<open>child_pid\<close> is the value
  the out-parameter points to.
\<close>

definition FORK_EVENT_CONSTRUCTOR ::
  "os_env \<Rightarrow> int \<Rightarrow> pid_t \<Rightarrow> pid_t \<Rightarrow> pid_t \<Rightarrow> (int \<Rightarrow> int \<Rightarrow> bool)
     \<Rightarrow> proc_state \<Rightarrow> failure + (proc_state \<times> int)" where
  "FORK_EVENT_CONSTRUCTOR os result child_pid pid ppid cmp s =
     (let old_errno = errno s
      in if cmp result 0
         then
           (let fullpath = get_executable_path os child_pid;
                s1 = s\<lparr> errno := exe_errno os child_pid (errno s) \<rparr>
            in case IOEvent_raw os pid child_pid ppid ES_EVENT_TYPE_NOTIFY_FORK (Some []) (Some [])
                      fullpath False False (errno s1) of
                 Inl f \<Rightarrow> Inl f
               | Inr (event, e) \<Rightarrow>
                   let s2 = send_to_sandbox os event ES_EVENT_TYPE_NOTIFY_FORK [] (s1\<lparr> errno := e \<rparr>)
                   in Inr (s2\<lparr> errno := old_errno \<rparr>, result))
         else Inr (s\<lparr> errno := old_errno \<rparr>, result))"

text \<open>
  \<^verbatim>\<open>STAT_EVENT_CONSTRUCTOR(type, src)\<close>; \<open>st_mode\<close> is \<^verbatim>\<open>s->st_mode\<close> of the
  enclosing wrapper, a \<^verbatim>\<open>mode_t\<close>, which selects the constructor with an explicit
  mode. That constructor has no assertion, so the macro always completes.
\<close>

definition STAT_EVENT_CONSTRUCTOR ::
  "os_env \<Rightarrow> 'r \<Rightarrow> mode_t \<Rightarrow> es_event_type_t \<Rightarrow> string \<Rightarrow> proc_state \<Rightarrow> proc_state \<times> 'r" where
  "STAT_EVENT_CONSTRUCTOR os result st_mode type src s =
     (let old_errno = errno s;
          exec = get_executable_path os (getpid os);
          s1 = s\<lparr> errno := exe_errno os (getpid os) (errno s) \<rparr>;
          event = IOEvent_raw_mode (getpid os) 0 (getppid os) type src [] exec st_mode False;
          s2 = send_to_sandbox os event type [] s1
      in (s2\<lparr> errno := old_errno \<rparr>, result))"

text \<open>
  \<^verbatim>\<open>WRITE_EVENT_CONSTRUCTOR(path, dst)\<close>; \<open>result\<close>, \<open>success\<close> and \<open>fildes\<close>
  are variables of the enclosing wrapper. The constructor is called with its default
  arguments \<^verbatim>\<open>get_mode = true\<close> and \<^verbatim>\<open>modified = false\<close>.
\<close>

definition WRITE_EVENT_CONSTRUCTOR ::
  "os_env \<Rightarrow> 'r \<Rightarrow> int \<Rightarrow> int \<Rightarrow> string \<Rightarrow> string option
     \<Rightarrow> proc_state \<Rightarrow> failure + (proc_state \<times> 'r)" where
  "WRITE_EVENT_CONSTRUCTOR os result success fildes path dst s =
     (let old_errno = errno s
      in if success = 0
         then
           (let reported = (trackedPaths_get (trackedPaths s) path \<noteq> None)
            in if \<not> reported
               then
                 (let entry = PathCacheEntry fildes;
                      s0 = s\<lparr> trackedPaths := trackedPaths_insert (trackedPaths s) path entry \<rparr>;
                      exec = get_executable_path os (getpid os);
                      s1 = s0\<lparr> errno := exe_errno os (getpid os) (errno s0) \<rparr>
                  in case IOEvent_raw os (getpid os) 0 (getppid os) ES_EVENT_TYPE_NOTIFY_WRITE
                            (Some path) dst exec True False (errno s1) of
                       Inl f \<Rightarrow> Inl f
                     | Inr (event, e) \<Rightarrow>
                         let s2 = send_to_sandbox os event ES_EVENT_TYPE_NOTIFY_WRITE []
                                    (s1\<lparr> errno := e \<rparr>)
                         in Inr (s2\<lparr> errno := old_errno \<rparr>, result))
               else Inr (s\<lparr> errno := old_errno \<rparr>, result))
         else Inr (s\<lparr> errno := old_errno \<rparr>, result))"

text \<open>A concrete system and process state, for evaluating the macros.\<close>

definition example_os :: os_env where
  "example_os =
     \<lparr> getpid = 100, getppid = 1,
       stat = (\<lambda>p. if p = ''/tmp/a'' then Inr 33188 else Inl 2),
       get_executable_path = (\<lambda>p. if p = 200 then ''/bin/child'' else ''/bin/sh''),
       exe_errno = (\<lambda>p e. e),
       send_errno = (\<lambda>ev e. 32) \<rparr>"

definition example_state :: proc_state where
  "example_state = \<lparr> errno = 0, trackedPaths = Map.empty, sent = [] \<rparr>"

section \<open>The kernel-message constructor\<close>

text \<open>
  The kernel message as the constructor reads it: the event type, the identity of the
  process (pids, audit token, executable path) and the payload \<^verbatim>\<open>msg->event\<close>, a
  union whose shape depends on the event type and is left as a type parameter. A file
  of a payload carries its path and its \<^verbatim>\<open>stat.st_mode\<close>.
\<close>

record es_file =
  file_path :: string
  file_st_mode :: mode_t

record 'p es_message =
  msg_event_type :: es_event_type_t
  msg_pid :: pid_t
  msg_ppid :: pid_t
  msg_original_ppid :: pid_t
  msg_audit_token :: audit_token_t
  msg_executable :: string
  msg_event :: 'p

text \<open>
  One use of the macro \<^verbatim>\<open>ES_EVENT_CONSTRUCTOR(type, dir, file, mode, do_break)\<close>
  (IOEvent.hpp, lines 26 to 30): \<open>rule_file\<close> is the file that \<^verbatim>\<open>type\<close> and
  \<^verbatim>\<open>file\<close> select in the payload, \<open>rule_mode\<close> and \<open>rule_do_break\<close> are the two
  flags, and \<open>rule_rest\<close> stands for the statements of the \<^verbatim>\<open>case\<close> that follow
  the macro, which run when \<^verbatim>\<open>do_break\<close> is false. \<^verbatim>\<open>PathExtractor(f).Path()\<close> is
  the path of the file.
\<close>

record 'p es_rule =
  rule_file :: "'p \<Rightarrow> es_file"
  rule_mode :: bool
  rule_do_break :: bool
  rule_rest :: "'p \<Rightarrow> IOEvent \<Rightarrow> IOEvent"

definition ES_EVENT_CONSTRUCTOR :: "'p es_rule \<Rightarrow> 'p \<Rightarrow> IOEvent \<Rightarrow> IOEvent" where
  "ES_EVENT_CONSTRUCTOR rule event ev =
     (let file = rule_file rule event;
          ev1 = ev\<lparr> m_src_path := file_path file \<rparr>;
          ev2 = (if rule_mode rule then ev1\<lparr> m_mode := file_st_mode file \<rparr> else ev1)
      in if rule_do_break rule then ev2 else rule_rest rule event ev2)"

text \<open>
  Modelled from the spec: the constructor \<^verbatim>\<open>IOEvent(const es_message_t *msg)\<close> is only
  declared in IOEvent.hpp (line 59); its body is not in these headers. Following the
  spec, it takes the process identity and the audit token from the message, switches
  on the event type and applies the extraction rule of that type from a table; an
  event type without a rule is an unhandled-variant failure. The table is a parameter.
\<close>

definition IOEvent_es ::
  "(es_event_type_t \<Rightarrow> 'p es_rule option) \<Rightarrow> 'p es_message \<Rightarrow> failure + IOEvent" where
  "IOEvent_es rules msg =
     (let ev = \<lparr> m_pid = msg_pid msg, m_cpid = 0, m_ppid = msg_ppid msg,
                  m_eventType = msg_event_type msg, m_mode = 0, m_modified = False,
                  m_executable = msg_executable msg, m_src_path = [], m_dst_path = [],
                  m_oppid = Some (msg_original_ppid msg),
                  m_auditToken = Some (msg_audit_token msg) \<rparr>
      in case rules (msg_event_type msg) of
           None \<Rightarrow> Inl (UnhandledEvent (msg_event_type msg))
         | Some rule \<Rightarrow> Inr (ES_EVENT_CONSTRUCTOR rule (msg_event msg) ev))"

text \<open>A table with a single rule, for the exec event, and a message of another type.\<close>

definition example_rules :: "es_event_type_t \<Rightarrow> es_file es_rule option" where
  "example_rules t =
     (if t = ES_EVENT_TYPE_NOTIFY_EXEC
      then Some \<lparr> rule_file = (\<lambda>f. f), rule_mode = True, rule_do_break = True,
                   rule_rest = (\<lambda>f ev. ev) \<rparr>
      else None)"

definition example_message :: "es_event_type_t \<Rightarrow> es_file es_message" where
  "example_message t =
     \<lparr> msg_event_type = t, msg_pid = 100, msg_ppid = 1, msg_original_ppid = 1,
       msg_audit_token = [0, 0, 0, 0, 0, 100, 0, 0], msg_executable = ''/bin/sh'',
       msg_event = \<lparr> file_path = ''/bin/ls'', file_st_mode = 33261 \<rparr> \<rparr>"

section \<open>The wire codec\<close>

text \<open>
  The stream operators \<^verbatim>\<open>operator<<\<close> and \<^verbatim>\<open>operator>>\<close> are declared as friends
  in IOEvent.hpp (lines 34 and 35) and defined outside these headers; this section
  models them from the spec and from the terms of \<^verbatim>\<open>max_size\<close>. Decoding bytes that
  this codec did not produce is the distinct malformed-record error; a record with a
  field that contains the delimiter byte is refused by the encoder.
\<close>

datatype codec_error = MalformedRecord | DelimiterCollision

text \<open>
  Modelled from the spec: the fields \<^verbatim>\<open>operator<<\<close> writes, which is defined outside
  these headers. They are the nine that \<^verbatim>\<open>max_size\<close> counts: the three pids, the
  event type, the mode and the modified flag in decimal text, then the executable,
  source and destination paths as they are. \<^verbatim>\<open>oppid_\<close> and \<^verbatim>\<open>auditToken_\<close> are not
  on the wire.
\<close>

definition encode_fields :: "IOEvent \<Rightarrow> string list" where
  "encode_fields ev =
     [to_string (sint (m_pid ev)), to_string (sint (m_cpid ev)), to_string (sint (m_ppid ev)),
      to_string (uint (m_eventType ev)), to_string (uint (m_mode ev)),
      to_string (of_bool (m_modified ev)),
      m_executable ev, m_src_path ev, m_dst_path ev]"

text \<open>
  The bytes of a record: each field followed by one delimiter byte (nine delimiters, as
  \<^verbatim>\<open>max_size\<close> counts).
\<close>

definition delimited :: "char \<Rightarrow> string list \<Rightarrow> string" where
  "delimited delim flds = concat (map (\<lambda>field. field @ [delim]) flds)"

text \<open>
  Modelled from the spec: \<^verbatim>\<open>operator<<\<close>, defined outside these headers. The
  delimiter byte is a parameter. The codec enforces that no payload byte collides with
  the delimiter: a record with a field that contains the delimiter is not written.
\<close>

definition encode :: "char \<Rightarrow> IOEvent \<Rightarrow> codec_error + string" where
  "encode delim ev =
     (if list_all (\<lambda>field. delim \<notin> set field) (encode_fields ev)
      then Inr (delimited delim (encode_fields ev))
      else Inl DelimiterCollision)"

text \<open>Reading one field up to its delimiter; input that ends before it is truncated.\<close>

fun read_field :: "char \<Rightarrow> string \<Rightarrow> (string \<times> string) option" where
  "read_field delim [] = None"
| "read_field delim (c # cs) =
     (if c = delim then Some ([], cs)
      else (case read_field delim cs of
              None \<Rightarrow> None
            | Some (field, rest) \<Rightarrow> Some (c # field, rest)))"

text \<open>Reading exactly \<open>n\<close> fields, with nothing left after the last delimiter.\<close>

fun read_fields :: "char \<Rightarrow> nat \<Rightarrow> string \<Rightarrow> string list option" where
  "read_fields delim 0 bytes = (if bytes = [] then Some [] else None)"
| "read_fields delim (Suc n) bytes =
     (case read_field delim bytes of
        None \<Rightarrow> None
      | Some (field, rest) \<Rightarrow>
          (case read_fields delim n rest of
             None \<Rightarrow> None
           | Some flds \<Rightarrow> Some (field # flds)))"

definition is_digit :: "char \<Rightarrow> bool" where
  "is_digit c = (48 \<le> (of_char c :: nat) \<and> (of_char c :: nat) \<le> 57)"

definition parse_nat :: "string \<Rightarrow> nat option" where
  "parse_nat text =
     (if text \<noteq> [] \<and> list_all is_digit text
      then Some (foldl (\<lambda>acc c. 10 * acc + (of_char c - 48)) 0 text)
      else None)"

definition parse_int :: "string \<Rightarrow> int option" where
  "parse_int text =
     (if text \<noteq> [] \<and> hd text = CHR ''-''
      then (case parse_nat (tl text) of None \<Rightarrow> None | Some n \<Rightarrow> Some (- int n))
      else (case parse_nat text of None \<Rightarrow> None | Some n \<Rightarrow> Some (int n)))"

text \<open>
  Only the decimal text that \<^verbatim>\<open>std::to_string\<close> writes for a number is accepted: no
  leading zeros, no negative zero.
\<close>

definition parse_decimal :: "string \<Rightarrow> int option" where
  "parse_decimal text =
     (case parse_int text of
        None \<Rightarrow> None
      | Some i \<Rightarrow> if to_string i = text then Some i else None)"

text \<open>A parsed number has to fit the member it is read into.\<close>

definition parse_signed32 :: "string \<Rightarrow> 32 word option" where
  "parse_signed32 text =
     (case parse_decimal text of
        None \<Rightarrow> None
      | Some i \<Rightarrow> if - (2 ^ 31) \<le> i \<and> i < 2 ^ 31 then Some (word_of_int i) else None)"

definition parse_unsigned32 :: "string \<Rightarrow> 32 word option" where
  "parse_unsigned32 text =
     (case parse_decimal text of
        None \<Rightarrow> None
      | Some i \<Rightarrow> if 0 \<le> i \<and> i < 2 ^ 32 then Some (word_of_int i) else None)"

definition parse_unsigned16 :: "string \<Rightarrow> 16 word option" where
  "parse_unsigned16 text =
     (case parse_decimal text of
        None \<Rightarrow> None
      | Some i \<Rightarrow> if 0 \<le> i \<and> i < 2 ^ 16 then Some (word_of_int i) else None)"

definition parse_bool :: "string \<Rightarrow> bool option" where
  "parse_bool text =
     (case parse_decimal text of
        None \<Rightarrow> None
      | Some i \<Rightarrow> if i = 0 then Some False else if i = 1 then Some True else None)"

text \<open>
  Modelled from the spec: the assignment of the nine fields by \<^verbatim>\<open>operator>>\<close>, defined
  outside these headers, to a default-constructed record. A field that does not parse,
  or a number of fields other than nine, gives no record.
\<close>

definition decode_fields :: "string list \<Rightarrow> IOEvent option" where
  "decode_fields flds =
     (case flds of
        [f_pid, f_cpid, f_ppid, f_type, f_mode, f_modified, f_exec, f_src, f_dst] \<Rightarrow>
          (case parse_signed32 f_pid of None \<Rightarrow> None | Some pid \<Rightarrow>
           case parse_signed32 f_cpid of None \<Rightarrow> None | Some cpid \<Rightarrow>
           case parse_signed32 f_ppid of None \<Rightarrow> None | Some ppid \<Rightarrow>
           case parse_unsigned32 f_type of None \<Rightarrow> None | Some type \<Rightarrow>
           case parse_unsigned16 f_mode of None \<Rightarrow> None | Some mode \<Rightarrow>
           case parse_bool f_modified of None \<Rightarrow> None | Some modified \<Rightarrow>
             Some \<lparr> m_pid = pid, m_cpid = cpid, m_ppid = ppid, m_eventType = type,
                    m_mode = mode, m_modified = modified, m_executable = f_exec,
                    m_src_path = f_src, m_dst_path = f_dst,
                    m_oppid = None, m_auditToken = None \<rparr>)
      | _ \<Rightarrow> None)"

text \<open>
  Modelled from the spec: \<^verbatim>\<open>operator>>\<close>, defined outside these headers. It never
  returns a partially populated record, and it accepts only bytes that the encoder
  writes.
\<close>

definition decode :: "char \<Rightarrow> string \<Rightarrow> codec_error + IOEvent" where
  "decode delim bytes =
     (case read_fields delim 9 bytes of
        None \<Rightarrow> Inl MalformedRecord
      | Some flds \<Rightarrow>
          (case decode_fields flds of
             None \<Rightarrow> Inl MalformedRecord
           | Some ev \<Rightarrow> Inr ev))"


definition wire_safe :: "char \<Rightarrow> IOEvent \<Rightarrow> bool" where
  "wire_safe delim ev =
     (delim \<notin> set (m_executable ev) \<and> delim \<notin> set (m_src_path ev) \<and> delim \<notin> set (m_dst_path ev))"



section \<open>Properties of the event record\<close>

lemma to_string_nat_small: "n < 10 \<Longrightarrow> to_string_nat n = [digit_char n]"
  by (subst to_string_nat.simps) simp

lemma to_string_nat_step:
  "10 \<le> n \<Longrightarrow> to_string_nat n = to_string_nat (n div 10) @ [digit_char (n mod 10)]"
  by (subst to_string_nat.simps) simp

lemma length_to_string_PID_MAX: "length (to_string PID_MAX) = 5"
  by (simp add: to_string_def PID_MAX_def to_string_nat_step to_string_nat_small)

lemma length_to_string_USHRT_MAX: "length (to_string USHRT_MAX) = 5"
  by (simp add: to_string_def USHRT_MAX_def to_string_nat_step to_string_nat_small)

lemma digit_char_1: "digit_char (Suc 0) = CHR ''1''"
  unfolding digit_char_def by code_simp

lemma to_string_true: "to_string (of_bool True) = ''1''"
  by (simp add: to_string_def to_string_nat_small digit_char_1)

text \<open>
  C8. \<^verbatim>\<open>max_size()\<close> is the documented sum: three pids of five digits
  (\<^verbatim>\<open>PID_MAX\<close> = 99999), two 16-bit fields of five digits (\<^verbatim>\<open>USHRT_MAX\<close> = 65535), one
  byte for the boolean (\<^verbatim>\<open>std::to_string(true)\<close> is "1"), three paths of
  \<^verbatim>\<open>PATH_MAX\<close> bytes and nine delimiters, that is \<open>3 * PATH_MAX + 35\<close>.
\<close>

theorem C8_max_size_formula:
  "max_size PATH_MAX = 3 * 5 + 2 * 5 + 1 + 3 * PATH_MAX + 9
   \<and> max_size PATH_MAX = 3 * PATH_MAX + 35
   \<and> PID_MAX = 99999 \<and> length (to_string PID_MAX) = 5
   \<and> USHRT_MAX = 65535 \<and> length (to_string USHRT_MAX) = 5
   \<and> to_string (of_bool True) = ''1''"
proof -
  have size: "max_size PATH_MAX = 3 * 5 + 2 * 5 + 1 + 3 * PATH_MAX + 9"
    unfolding max_size_def length_to_string_PID_MAX length_to_string_USHRT_MAX to_string_true
    by simp
  show ?thesis
    using size length_to_string_PID_MAX length_to_string_USHRT_MAX to_string_true
    by (simp add: PID_MAX_def USHRT_MAX_def)
qed

subsection \<open>The constructors from raw identifiers\<close>

lemma IOEvent_raw_empty_exec:
  "IOEvent_raw os pid cpid ppid type src dst [] get_mode modified e = Inl AssertionFailed"
  by (simp add: IOEvent_raw_def)

lemma IOEvent_raw_returns:
  assumes "exec \<noteq> []"
  shows "IOEvent_raw os pid cpid ppid type src dst exec get_mode modified e =
           Inr (\<lparr> m_pid = pid, m_cpid = cpid, m_ppid = ppid, m_eventType = type,
                   m_mode = (if get_mode then (case stat os (string_of_cstr src) of
                                                 Inr st_mode \<Rightarrow> st_mode | Inl err \<Rightarrow> 0) else 0),
                   m_modified = modified, m_executable = exec,
                   m_src_path = string_of_cstr src, m_dst_path = string_of_cstr dst,
                   m_oppid = Some ppid, m_auditToken = None \<rparr>,
                 (if get_mode then (case stat os (string_of_cstr src) of
                                      Inr st_mode \<Rightarrow> e | Inl err \<Rightarrow> err) else e))"
  using assms by (simp add: IOEvent_raw_def Let_def split: sum.splits)

text \<open>
  C4. An empty \<^verbatim>\<open>executablePath\<close> is to fail fast in both constructors from raw
  identifiers. Evaluated at an empty executable: the querying constructor stops at its
  assertion, while the constructor with an explicit mode, which has no assertion,
  returns a record whose executable is empty.
\<close>

theorem C4_explicit_mode_accepts_empty_executable:
  "IOEvent_raw example_os 100 0 1 ES_EVENT_TYPE_NOTIFY_STAT (Some ''/tmp/a'') (Some []) [] True False 0
     = Inl AssertionFailed
   \<and> m_executable (IOEvent_raw_mode 100 0 1 ES_EVENT_TYPE_NOTIFY_STAT ''/tmp/a'' [] [] 33188 False) = []"
  by (simp add: IOEvent_raw_def IOEvent_raw_mode_def)

text \<open>
  C6. With \<^verbatim>\<open>get_mode\<close> set and a non-empty executable, the constructor returns a
  record whose source path is the path it was given, and the mode it stores is the
  answer of the status query on that very path: its \<^verbatim>\<open>st_mode\<close>, or 0 when the
  query fails, in which case no error is raised and \<^verbatim>\<open>EventPathExists()\<close> is false.
  For a null source pointer the path queried is the empty string.
  \<^verbatim>\<open>EventPathExists()\<close> is false exactly when the stored mode is 0.
\<close>

theorem C6_mode_query:
  assumes "exec \<noteq> []"
  shows "(\<exists>ev e'. IOEvent_raw os pid cpid ppid type (Some path) dst exec True modified e = Inr (ev, e')
            \<and> m_src_path ev = path
            \<and> (case stat os path of
                  Inl err \<Rightarrow> GetMode ev = 0 \<and> \<not> EventPathExists ev
                | Inr st_mode \<Rightarrow> GetMode ev = st_mode)
            \<and> (\<not> EventPathExists ev) = (GetMode ev = 0))
         \<and> (\<exists>ev e'. IOEvent_raw os pid cpid ppid type None dst exec True modified e = Inr (ev, e')
            \<and> m_src_path ev = []
            \<and> (case stat os [] of
                  Inl err \<Rightarrow> GetMode ev = 0 \<and> \<not> EventPathExists ev
                | Inr st_mode \<Rightarrow> GetMode ev = st_mode)
            \<and> (\<not> EventPathExists ev) = (GetMode ev = 0))"
  by (simp add: IOEvent_raw_returns [OF assms] GetMode_def EventPathExists_def string_of_cstr_def
      split: sum.splits)

theorem C6_mode_query_witness:
  "''/bin/sh'' \<noteq> []
   \<and> stat example_os ''/missing'' = Inl 2
   \<and> (\<exists>ev e'. IOEvent_raw example_os 100 0 1 ES_EVENT_TYPE_NOTIFY_CREATE (Some ''/missing'') None
                 ''/bin/sh'' True False 0 = Inr (ev, e')
              \<and> m_src_path ev = ''/missing'' \<and> GetMode ev = 0 \<and> \<not> EventPathExists ev)
   \<and> stat example_os ''/tmp/a'' = Inr 33188
   \<and> (\<exists>ev e'. IOEvent_raw example_os 100 0 1 ES_EVENT_TYPE_NOTIFY_CREATE (Some ''/tmp/a'') None
                 ''/bin/sh'' True False 0 = Inr (ev, e')
              \<and> m_src_path ev = ''/tmp/a'' \<and> GetMode ev = 33188 \<and> EventPathExists ev)"
  using C6_mode_query [of "''/bin/sh''" example_os 100 0 1 ES_EVENT_TYPE_NOTIFY_CREATE
      "''/missing''" None False 0]
    C6_mode_query [of "''/bin/sh''" example_os 100 0 1 ES_EVENT_TYPE_NOTIFY_CREATE
      "''/tmp/a''" None False 0]
  by (auto simp add: example_os_def)

text \<open>
  C7, as stated: a record built by an interposition constructor has an undefined or
  zero \<^verbatim>\<open>originalParentPid\<close>. It fails for parent pid 7: the constructor stores 7.
\<close>

theorem C7_oppid_counterexample:
  "GetOriginalParentPid
     (IOEvent_raw_mode 100 0 7 ES_EVENT_TYPE_NOTIFY_STAT ''/tmp/a'' [] ''/bin/sh'' 33188 False) = Some 7
   \<and> GetOriginalParentPid
     (IOEvent_raw_mode 100 0 7 ES_EVENT_TYPE_NOTIFY_STAT ''/tmp/a'' [] ''/bin/sh'' 33188 False) \<noteq> None
   \<and> GetOriginalParentPid
     (IOEvent_raw_mode 100 0 7 ES_EVENT_TYPE_NOTIFY_STAT ''/tmp/a'' [] ''/bin/sh'' 33188 False) \<noteq> Some 0"
  by (simp add: GetOriginalParentPid_def IOEvent_raw_mode_def)

text \<open>
  C7, amended. Both constructors from raw identifiers set \<^verbatim>\<open>originalParentPid\<close> to
  the parent pid they are given, and leave the audit token unassigned.
\<close>

theorem C7_security_context:
  "GetOriginalParentPid (IOEvent_raw_mode pid cpid ppid type src dst exec mode modified) = Some ppid
   \<and> GetProcessAuditToken (IOEvent_raw_mode pid cpid ppid type src dst exec mode modified) = None
   \<and> (exec \<noteq> [] \<longrightarrow>
        (\<exists>ev e'. IOEvent_raw os pid cpid ppid type csrc cdst exec get_mode modified e = Inr (ev, e')
           \<and> GetOriginalParentPid ev = Some ppid \<and> GetProcessAuditToken ev = None))"
  by (simp add: IOEvent_raw_returns GetOriginalParentPid_def GetProcessAuditToken_def
      IOEvent_raw_mode_def)

theorem C7_security_context_witness:
  "GetOriginalParentPid
     (IOEvent_raw_mode 100 0 7 ES_EVENT_TYPE_NOTIFY_STAT ''/tmp/a'' [] ''/bin/sh'' 33188 False) = Some 7
   \<and> ''/bin/sh'' \<noteq> []
   \<and> (\<exists>ev e'. IOEvent_raw example_os 100 0 7 ES_EVENT_TYPE_NOTIFY_STAT (Some ''/tmp/a'') None
                 ''/bin/sh'' True False 0 = Inr (ev, e')
              \<and> GetOriginalParentPid ev = Some 7 \<and> GetProcessAuditToken ev = None)"
  using C7_security_context [of 100 0 7 ES_EVENT_TYPE_NOTIFY_STAT "''/tmp/a''" "[]" "''/bin/sh''"
      33188 False example_os "Some ''/tmp/a''" None True 0]
  by auto

text \<open>
  C10. The convenience constructor builds the record that the constructor with an
  explicit mode builds for \<^verbatim>\<open>getpid()\<close>, child pid 0 and \<^verbatim>\<open>getppid()\<close>; the record
  does not depend on what a status query would answer, and its mode is the mode given.
\<close>

theorem C10_convenience_constructor:
  "IOEvent_self os type src exec mode modified dest =
     IOEvent_raw_mode (getpid os) 0 (getppid os) type src dest exec mode modified
   \<and> IOEvent_self (os\<lparr> stat := query \<rparr>) type src exec mode modified dest =
       IOEvent_self os type src exec mode modified dest
   \<and> GetMode (IOEvent_self os type src exec mode modified dest) = mode"
  by (simp add: IOEvent_self_def IOEvent_raw_mode_def GetMode_def)

section \<open>Properties of the interposition macros\<close>

lemma send_to_sandbox_sent [simp]:
  "sent (send_to_sandbox os event type flags s) = sent s @ [(event, type, flags)]"
  by (simp add: send_to_sandbox_def)

lemma send_to_sandbox_trackedPaths [simp]:
  "trackedPaths (send_to_sandbox os event type flags s) = trackedPaths s"
  by (simp add: send_to_sandbox_def)

subsection \<open>Fork\<close>

lemma FORK_not_success:
  "\<not> cmp result 0 \<Longrightarrow> FORK_EVENT_CONSTRUCTOR os result child_pid pid ppid cmp s = Inr (s, result)"
  by (simp add: FORK_EVENT_CONSTRUCTOR_def)

lemma FORK_success:
  assumes "cmp result 0" and "get_executable_path os child_pid \<noteq> []"
  shows "\<exists>s'. FORK_EVENT_CONSTRUCTOR os result child_pid pid ppid cmp s = Inr (s', result)
           \<and> errno s' = errno s \<and> trackedPaths s' = trackedPaths s
           \<and> sent s' = sent s @
                [(\<lparr> m_pid = pid, m_cpid = child_pid, m_ppid = ppid,
                     m_eventType = ES_EVENT_TYPE_NOTIFY_FORK, m_mode = 0, m_modified = False,
                     m_executable = get_executable_path os child_pid,
                     m_src_path = [], m_dst_path = [],
                     m_oppid = Some ppid, m_auditToken = None \<rparr>,
                  ES_EVENT_TYPE_NOTIFY_FORK, [])]"
  using assms
  by (simp add: FORK_EVENT_CONSTRUCTOR_def IOEvent_raw_returns string_of_cstr_def Let_def)

lemma FORK_empty_executable:
  "cmp result 0 \<Longrightarrow> get_executable_path os child_pid = [] \<Longrightarrow>
     FORK_EVENT_CONSTRUCTOR os result child_pid pid ppid cmp s = Inl AssertionFailed"
  by (simp add: FORK_EVENT_CONSTRUCTOR_def IOEvent_raw_empty_exec)

text \<open>
  C2. When \<^verbatim>\<open>result cmp 0\<close> is false the macro sends nothing and leaves the state as
  it was. When it is true (and the child's executable path resolves to a non-empty
  string, the constructor's precondition) the macro sends exactly one
  \<^verbatim>\<open>NOTIFY_FORK\<close> event, whose child pid is the value of the out-parameter and
  whose executable is the path resolved for the child pid.
\<close>

theorem C2_fork_gating:
  "(\<not> cmp result 0 \<longrightarrow>
      FORK_EVENT_CONSTRUCTOR os result child_pid pid ppid cmp s = Inr (s, result))
   \<and> (cmp result 0 \<and> get_executable_path os child_pid \<noteq> [] \<longrightarrow>
        (\<exists>s' event. FORK_EVENT_CONSTRUCTOR os result child_pid pid ppid cmp s = Inr (s', result)
           \<and> sent s' = sent s @ [(event, ES_EVENT_TYPE_NOTIFY_FORK, [])]
           \<and> m_eventType event = ES_EVENT_TYPE_NOTIFY_FORK
           \<and> m_pid event = pid \<and> m_ppid event = ppid
           \<and> m_cpid event = child_pid
           \<and> m_executable event = get_executable_path os child_pid))"
proof (intro conjI impI)
  assume "\<not> cmp result 0"
  then show "FORK_EVENT_CONSTRUCTOR os result child_pid pid ppid cmp s = Inr (s, result)"
    by (rule FORK_not_success)
next
  assume ok: "cmp result 0 \<and> get_executable_path os child_pid \<noteq> []"
  from FORK_success [of cmp result os child_pid pid ppid s] ok
  obtain s' where s': "FORK_EVENT_CONSTRUCTOR os result child_pid pid ppid cmp s = Inr (s', result)"
    and tr: "sent s' = sent s @
                [(\<lparr> m_pid = pid, m_cpid = child_pid, m_ppid = ppid,
                     m_eventType = ES_EVENT_TYPE_NOTIFY_FORK, m_mode = 0, m_modified = False,
                     m_executable = get_executable_path os child_pid,
                     m_src_path = [], m_dst_path = [],
                     m_oppid = Some ppid, m_auditToken = None \<rparr>,
                  ES_EVENT_TYPE_NOTIFY_FORK, [])]"
    by blast
  show "\<exists>s' event. FORK_EVENT_CONSTRUCTOR os result child_pid pid ppid cmp s = Inr (s', result)
           \<and> sent s' = sent s @ [(event, ES_EVENT_TYPE_NOTIFY_FORK, [])]
           \<and> m_eventType event = ES_EVENT_TYPE_NOTIFY_FORK
           \<and> m_pid event = pid \<and> m_ppid event = ppid
           \<and> m_cpid event = child_pid
           \<and> m_executable event = get_executable_path os child_pid"
    using s' tr by simp
qed

theorem C2_fork_gating_witness:
  "\<not> (-1 :: int) = 0
   \<and> FORK_EVENT_CONSTRUCTOR example_os (-1) 0 100 1 (=) example_state = Inr (example_state, -1)
   \<and> (0 :: int) = 0 \<and> get_executable_path example_os 200 \<noteq> []
   \<and> (\<exists>s' event. FORK_EVENT_CONSTRUCTOR example_os 0 200 100 1 (=) example_state = Inr (s', 0)
           \<and> sent s' = sent example_state @ [(event, ES_EVENT_TYPE_NOTIFY_FORK, [])]
           \<and> m_cpid event = 200
           \<and> m_executable event = ''/bin/child'')"
  using C2_fork_gating [of "(=)" "-1" example_os 0 100 1 example_state]
    C2_fork_gating [of "(=)" 0 example_os 200 100 1 example_state]
  by (auto simp add: example_os_def)

subsection \<open>Write\<close>

lemma trackedPaths_insert_fresh:
  "cache path = None \<Longrightarrow> trackedPaths_insert cache path entry = cache(path \<mapsto> entry)"
  by (simp add: trackedPaths_insert_def)

lemma WRITE_failed_call:
  "success \<noteq> 0 \<Longrightarrow> WRITE_EVENT_CONSTRUCTOR os result success fildes path dst s = Inr (s, result)"
  by (simp add: WRITE_EVENT_CONSTRUCTOR_def)

lemma WRITE_already_reported:
  "trackedPaths s path \<noteq> None \<Longrightarrow>
     WRITE_EVENT_CONSTRUCTOR os result success fildes path dst s = Inr (s, result)"
  by (auto simp add: WRITE_EVENT_CONSTRUCTOR_def trackedPaths_get_def Let_def)

lemma WRITE_first_report:
  assumes "success = 0" and "trackedPaths s path = None"
    and "get_executable_path os (getpid os) \<noteq> []"
  shows "\<exists>s' event. WRITE_EVENT_CONSTRUCTOR os result success fildes path dst s = Inr (s', result)
           \<and> errno s' = errno s
           \<and> trackedPaths s' = (trackedPaths s)(path \<mapsto> PathCacheEntry fildes)
           \<and> sent s' = sent s @ [(event, ES_EVENT_TYPE_NOTIFY_WRITE, [])]
           \<and> m_eventType event = ES_EVENT_TYPE_NOTIFY_WRITE
           \<and> m_pid event = getpid os
           \<and> m_src_path event = path
           \<and> m_executable event = get_executable_path os (getpid os)"
  using assms
  by (simp add: WRITE_EVENT_CONSTRUCTOR_def trackedPaths_get_def trackedPaths_insert_fresh
      IOEvent_raw_returns string_of_cstr_def Let_def)

lemma WRITE_empty_executable:
  "success = 0 \<Longrightarrow> trackedPaths s path = None \<Longrightarrow> get_executable_path os (getpid os) = [] \<Longrightarrow>
     WRITE_EVENT_CONSTRUCTOR os result success fildes path dst s = Inl AssertionFailed"
  by (simp add: WRITE_EVENT_CONSTRUCTOR_def trackedPaths_get_def IOEvent_raw_empty_exec)

lemma WRITE_sent_changes:
  assumes "WRITE_EVENT_CONSTRUCTOR os result success fildes path dst s = Inr (s', r)"
    and "sent s' \<noteq> sent s"
  shows "success = 0 \<and> trackedPaths s path = None"
proof (rule ccontr)
  assume "\<not> (success = 0 \<and> trackedPaths s path = None)"
  then have "WRITE_EVENT_CONSTRUCTOR os result success fildes path dst s = Inr (s, result)"
    by (cases "success = 0") (simp_all add: WRITE_failed_call WRITE_already_reported)
  with assms show False by simp
qed

text \<open>
  C1. \<^verbatim>\<open>WRITE_EVENT_CONSTRUCTOR\<close> sends an event only when \<^verbatim>\<open>success == 0\<close> and
  the path is not yet in the dedup cache. In that case (the executable path being
  non-empty, the constructor's precondition) it sends one \<^verbatim>\<open>NOTIFY_WRITE\<close> event
  for the path and leaves the path in the cache, so that a second successful write to
  the same path sends nothing: the two writes together report exactly one event.
\<close>

theorem C1_write_dedup:
  "(\<forall>s' r. WRITE_EVENT_CONSTRUCTOR os result success fildes path dst s = Inr (s', r)
        \<and> sent s' \<noteq> sent s \<longrightarrow> success = 0 \<and> trackedPaths s path = None)
   \<and> (success = 0 \<and> trackedPaths s path = None \<and> get_executable_path os (getpid os) \<noteq> [] \<longrightarrow>
        (\<exists>s1 s2 event.
            WRITE_EVENT_CONSTRUCTOR os result success fildes path dst s = Inr (s1, result)
          \<and> sent s1 = sent s @ [(event, ES_EVENT_TYPE_NOTIFY_WRITE, [])]
          \<and> m_eventType event = ES_EVENT_TYPE_NOTIFY_WRITE \<and> m_src_path event = path
          \<and> trackedPaths s1 path \<noteq> None
          \<and> WRITE_EVENT_CONSTRUCTOR os result2 0 fildes2 path dst2 s1 = Inr (s2, result2)
          \<and> sent s2 = sent s @ [(event, ES_EVENT_TYPE_NOTIFY_WRITE, [])]))"
proof (intro conjI allI impI)
  fix s' r
  assume "WRITE_EVENT_CONSTRUCTOR os result success fildes path dst s = Inr (s', r)
        \<and> sent s' \<noteq> sent s"
  then have "success = 0 \<and> trackedPaths s path = None"
    using WRITE_sent_changes [of os result success fildes path dst s s' r] by simp
  then show "success = 0" and "trackedPaths s path = None"
    by simp_all
next
  assume pre: "success = 0 \<and> trackedPaths s path = None \<and> get_executable_path os (getpid os) \<noteq> []"
  then have p: "success = 0" "trackedPaths s path = None"
    "get_executable_path os (getpid os) \<noteq> []"
    by simp_all
  from WRITE_first_report [OF p, of result fildes dst]
  obtain s1 event where
    first: "WRITE_EVENT_CONSTRUCTOR os result success fildes path dst s = Inr (s1, result)"
    and cache: "trackedPaths s1 = (trackedPaths s)(path \<mapsto> PathCacheEntry fildes)"
    and tr: "sent s1 = sent s @ [(event, ES_EVENT_TYPE_NOTIFY_WRITE, [])]"
    and ev: "m_eventType event = ES_EVENT_TYPE_NOTIFY_WRITE" "m_src_path event = path"
    by auto
  from cache have present: "trackedPaths s1 path \<noteq> None" by simp
  then have second: "WRITE_EVENT_CONSTRUCTOR os result2 0 fildes2 path dst2 s1 = Inr (s1, result2)"
    by (rule WRITE_already_reported)
  show "\<exists>s1 s2 event.
            WRITE_EVENT_CONSTRUCTOR os result success fildes path dst s = Inr (s1, result)
          \<and> sent s1 = sent s @ [(event, ES_EVENT_TYPE_NOTIFY_WRITE, [])]
          \<and> m_eventType event = ES_EVENT_TYPE_NOTIFY_WRITE \<and> m_src_path event = path
          \<and> trackedPaths s1 path \<noteq> None
          \<and> WRITE_EVENT_CONSTRUCTOR os result2 0 fildes2 path dst2 s1 = Inr (s2, result2)
          \<and> sent s2 = sent s @ [(event, ES_EVENT_TYPE_NOTIFY_WRITE, [])]"
    using first tr ev present second by auto
qed

theorem C1_write_dedup_witness:
  "(0 :: int) = 0 \<and> trackedPaths example_state ''/tmp/a'' = None
   \<and> get_executable_path example_os (getpid example_os) \<noteq> []
   \<and> (\<exists>s1 s2 event.
          WRITE_EVENT_CONSTRUCTOR example_os (5 :: int) 0 3 ''/tmp/a'' (Some []) example_state = Inr (s1, 5)
        \<and> WRITE_EVENT_CONSTRUCTOR example_os (7 :: int) 0 3 ''/tmp/a'' (Some []) s1 = Inr (s2, 7)
        \<and> sent s2 = [(event, ES_EVENT_TYPE_NOTIFY_WRITE, [])]
        \<and> m_src_path event = ''/tmp/a'')"
  using C1_write_dedup [of example_os "5 :: int" 0 3 "''/tmp/a''" "Some []" example_state "7 :: int" 3 "Some []"]
  by (auto simp add: example_os_def example_state_def)

subsection \<open>The saved error number\<close>

lemma DEFAULT_errno:
  "(case DEFAULT_EVENT_CONSTRUCTOR os result type src dst mode s of
      Inl f \<Rightarrow> get_executable_path os (getpid os) = []
    | Inr (s', r) \<Rightarrow> errno s' = errno s \<and> r = result)"
  by (cases "get_executable_path os (getpid os) = []")
    (simp_all add: DEFAULT_EVENT_CONSTRUCTOR_def IOEvent_raw_returns IOEvent_raw_empty_exec Let_def)

lemma NO_RESOLVE_errno:
  "(case DEFAULT_EVENT_CONSTRUCTOR_NO_RESOLVE os result type src dst mode report s of
      Inl f \<Rightarrow> report \<and> get_executable_path os (getpid os) = []
    | Inr (s', r) \<Rightarrow> errno s' = errno s \<and> r = result)"
  by (cases "get_executable_path os (getpid os) = []")
    (simp_all add: DEFAULT_EVENT_CONSTRUCTOR_NO_RESOLVE_def IOEvent_raw_returns
      IOEvent_raw_empty_exec Let_def)

lemma FORK_errno:
  "(case FORK_EVENT_CONSTRUCTOR os result child_pid pid ppid cmp s of
      Inl f \<Rightarrow> cmp result 0 \<and> get_executable_path os child_pid = []
    | Inr (s', r) \<Rightarrow> errno s' = errno s \<and> r = result)"
  by (cases "get_executable_path os child_pid = []")
    (simp_all add: FORK_EVENT_CONSTRUCTOR_def IOEvent_raw_returns IOEvent_raw_empty_exec Let_def)

lemma STAT_errno:
  "errno (fst (STAT_EVENT_CONSTRUCTOR os result st_mode type src s)) = errno s
   \<and> snd (STAT_EVENT_CONSTRUCTOR os result st_mode type src s) = result"
  by (simp add: STAT_EVENT_CONSTRUCTOR_def Let_def)

lemma WRITE_errno:
  "(case WRITE_EVENT_CONSTRUCTOR os result success fildes path dst s of
      Inl f \<Rightarrow> success = 0 \<and> trackedPaths s path = None \<and> get_executable_path os (getpid os) = []
    | Inr (s', r) \<Rightarrow> errno s' = errno s \<and> r = result)"
  by (cases "get_executable_path os (getpid os) = []")
    (auto simp add: WRITE_EVENT_CONSTRUCTOR_def trackedPaths_get_def IOEvent_raw_returns
      IOEvent_raw_empty_exec Let_def)

lemma exec_wrapper_returns:
  "(case exec_wrapper os path real_call s of
      Inl f \<Rightarrow> get_executable_path os (getpid os) = []
    | Inr (s', r) \<Rightarrow>
        (\<exists>s1. EXEC_EVENT_CONSTRUCTOR os path s = Inr s1
           \<and> errno s' = errno (fst (real_call s1)) \<and> r = snd (real_call s1)))"
  by (cases "get_executable_path os (getpid os) = []")
    (simp_all add: exec_wrapper_def EXEC_EVENT_CONSTRUCTOR_def IOEvent_raw_returns
      IOEvent_raw_empty_exec Let_def split: prod.splits)

lemma exit_wrapper_returns:
  "(case exit_wrapper os real_call s of
      Inl f \<Rightarrow> get_executable_path os (getpid os) = []
    | Inr (s', r) \<Rightarrow>
        (\<exists>s1. EXIT_EVENT_CONSTRUCTOR os s = Inr s1
           \<and> errno s' = errno (fst (real_call s1)) \<and> r = snd (real_call s1)))"
  by (cases "get_executable_path os (getpid os) = []")
    (simp_all add: exit_wrapper_def EXIT_EVENT_CONSTRUCTOR_def IOEvent_raw_returns
      IOEvent_raw_empty_exec Let_def split: prod.splits)

text \<open>
  The exec and exit macros themselves do not save \<^verbatim>\<open>errno\<close>: with 0 in it before and
  a report that leaves 32, it is 32 after the macro. They stand ahead of the real call,
  which sets \<^verbatim>\<open>errno\<close> afterwards.
\<close>

lemma EXEC_EXIT_leave_errno:
  "errno example_state = 0
   \<and> map_sum id errno (EXEC_EVENT_CONSTRUCTOR example_os (Some ''/bin/ls'') example_state) = Inr 32
   \<and> map_sum id errno (EXIT_EVENT_CONSTRUCTOR example_os example_state) = Inr 32"
  by (simp add: EXEC_EVENT_CONSTRUCTOR_def EXIT_EVENT_CONSTRUCTOR_def IOEvent_raw_returns
      example_os_def example_state_def send_to_sandbox_def Let_def)

text \<open>
  C5. Each of the default, no-resolve, write and fork macros either stops at the
  constructor's assertion (only when it builds an event and the executable path is
  empty) or returns the wrapper's \<open>result\<close> with \<^verbatim>\<open>errno\<close> equal to the value it had
  when the macro was entered, after the real call; the stat macro always returns so.
  This holds whatever the executable-path lookup, the status query and the report
  leave in \<^verbatim>\<open>errno\<close>. An exec-style or exit-style wrapper that returns does so with
  the \<^verbatim>\<open>errno\<close> and the result of the real call, which it makes after the report.
\<close>

theorem C5_errno_restored:
  "(case DEFAULT_EVENT_CONSTRUCTOR os result type src dst mode s of
      Inl f \<Rightarrow> get_executable_path os (getpid os) = []
    | Inr (s', r) \<Rightarrow> errno s' = errno s \<and> r = result)
   \<and> (case DEFAULT_EVENT_CONSTRUCTOR_NO_RESOLVE os result type src dst mode report s of
      Inl f \<Rightarrow> report \<and> get_executable_path os (getpid os) = []
    | Inr (s', r) \<Rightarrow> errno s' = errno s \<and> r = result)
   \<and> (case WRITE_EVENT_CONSTRUCTOR os result success fildes path wdst s of
      Inl f \<Rightarrow> success = 0 \<and> trackedPaths s path = None \<and> get_executable_path os (getpid os) = []
    | Inr (s', r) \<Rightarrow> errno s' = errno s \<and> r = result)
   \<and> (case FORK_EVENT_CONSTRUCTOR os fresult child_pid pid ppid cmp s of
      Inl f \<Rightarrow> cmp fresult 0 \<and> get_executable_path os child_pid = []
    | Inr (s', r) \<Rightarrow> errno s' = errno s \<and> r = fresult)
   \<and> errno (fst (STAT_EVENT_CONSTRUCTOR os result st_mode type ssrc s)) = errno s
   \<and> snd (STAT_EVENT_CONSTRUCTOR os result st_mode type ssrc s) = result
   \<and> (case exec_wrapper os epath real_exec s of
      Inl f \<Rightarrow> get_executable_path os (getpid os) = []
    | Inr (s', r) \<Rightarrow>
        (\<exists>s1. EXEC_EVENT_CONSTRUCTOR os epath s = Inr s1
           \<and> errno s' = errno (fst (real_exec s1)) \<and> r = snd (real_exec s1)))
   \<and> (case exit_wrapper os real_exit s of
      Inl f \<Rightarrow> get_executable_path os (getpid os) = []
    | Inr (s', r) \<Rightarrow>
        (\<exists>s1. EXIT_EVENT_CONSTRUCTOR os s = Inr s1
           \<and> errno s' = errno (fst (real_exit s1)) \<and> r = snd (real_exit s1)))"
  by (intro conjI DEFAULT_errno NO_RESOLVE_errno WRITE_errno FORK_errno
      conjunct1 [OF STAT_errno] conjunct2 [OF STAT_errno] exec_wrapper_returns exit_wrapper_returns)

theorem C5_errno_restored_witness:
  "(\<exists>s'. DEFAULT_EVENT_CONSTRUCTOR example_os (-1 :: int) ES_EVENT_TYPE_NOTIFY_CREATE
              (Some ''/missing'') None True (example_state\<lparr> errno := 13 \<rparr>) = Inr (s', -1)
          \<and> errno s' = 13)
   \<and> (\<exists>s'. FORK_EVENT_CONSTRUCTOR example_os 0 200 100 1 (=) (example_state\<lparr> errno := 13 \<rparr>) = Inr (s', 0)
          \<and> errno s' = 13)
   \<and> (\<exists>s'. exec_wrapper example_os (Some ''/bin/ls'') (\<lambda>s1. (s1\<lparr> errno := 2 \<rparr>, - 1 :: int))
              (example_state\<lparr> errno := 13 \<rparr>) = Inr (s', - 1)
          \<and> errno s' = 2)"
  using C5_errno_restored [where os = example_os and result = "-1 :: int"
      and type = ES_EVENT_TYPE_NOTIFY_CREATE and src = "Some ''/missing''" and dst = None
      and mode = True and s = "example_state\<lparr> errno := 13 \<rparr>" and report = True
      and success = 0 and fildes = 3 and path = "''/tmp/a''" and wdst = "Some []"
      and fresult = 0 and child_pid = 200 and pid = 100 and ppid = 1 and cmp = "(=)"
      and st_mode = 0 and ssrc = "[]" and epath = "Some ''/bin/ls''"
      and real_exec = "\<lambda>s1. (s1\<lparr> errno := 2 \<rparr>, - 1 :: int)"
      and real_exit = "\<lambda>s1. (s1, 0 :: int)"]
  by (auto simp add: example_os_def split: sum.splits)

section \<open>Properties of the kernel-message constructor\<close>

text \<open>
  C3. A kernel message whose event type has no extraction rule in the table makes the
  constructor fail with the unhandled-event failure; it returns a record exactly for
  the event types that have a rule.
\<close>

theorem C3_unmapped_event_type:
  "(rules (msg_event_type msg) = None \<longrightarrow>
      IOEvent_es rules msg = Inl (UnhandledEvent (msg_event_type msg)))
   \<and> ((\<exists>ev. IOEvent_es rules msg = Inr ev) = (rules (msg_event_type msg) \<noteq> None))"
  by (auto simp add: IOEvent_es_def Let_def split: option.splits)

theorem C3_unmapped_event_type_witness:
  "example_rules (msg_event_type (example_message ES_EVENT_TYPE_NOTIFY_WRITE)) = None
   \<and> IOEvent_es example_rules (example_message ES_EVENT_TYPE_NOTIFY_WRITE)
       = Inl (UnhandledEvent ES_EVENT_TYPE_NOTIFY_WRITE)
   \<and> (\<exists>ev. IOEvent_es example_rules (example_message ES_EVENT_TYPE_NOTIFY_EXEC) = Inr ev)"
  using C3_unmapped_event_type [of example_rules "example_message ES_EVENT_TYPE_NOTIFY_WRITE"]
    C3_unmapped_event_type [of example_rules "example_message ES_EVENT_TYPE_NOTIFY_EXEC"]
  by (simp add: example_rules_def example_message_def ES_EVENT_TYPE_NOTIFY_WRITE_def
      ES_EVENT_TYPE_NOTIFY_EXEC_def)

section \<open>Properties of the wire codec\<close>

subsection \<open>Decimal text\<close>










lemma parse_decimal_Some: "parse_decimal text = Some i \<Longrightarrow> to_string i = text"
  by (simp add: parse_decimal_def split: option.splits if_splits)






lemma parse_signed32_Some: "parse_signed32 text = Some w \<Longrightarrow> to_string (sint w) = text"
  by (auto simp add: parse_signed32_def sint_sbintrunc' signed_take_bit_int_eq_self
      dest: parse_decimal_Some split: option.splits if_splits)

lemma parse_unsigned32_Some: "parse_unsigned32 text = Some w \<Longrightarrow> to_string (uint w) = text"
  by (auto simp add: parse_unsigned32_def uint_word_of_int_eq take_bit_int_eq_self
      dest: parse_decimal_Some split: option.splits if_splits)

lemma parse_unsigned16_Some: "parse_unsigned16 text = Some w \<Longrightarrow> to_string (uint w) = text"
  by (auto simp add: parse_unsigned16_def uint_word_of_int_eq take_bit_int_eq_self
      dest: parse_decimal_Some split: option.splits if_splits)

lemma parse_bool_Some: "parse_bool text = Some b \<Longrightarrow> to_string (of_bool b) = text"
  by (auto simp add: parse_bool_def dest: parse_decimal_Some split: option.splits if_splits)

subsection \<open>Delimited fields\<close>



lemma read_field_Some:
  "read_field delim bytes = Some (field, rest) \<Longrightarrow>
     bytes = field @ delim # rest \<and> delim \<notin> set field"
  by (induction bytes arbitrary: field) (auto split: if_splits option.splits)

lemma read_fields_Some:
  "read_fields delim n bytes = Some flds \<Longrightarrow>
     bytes = delimited delim flds \<and> length flds = n \<and> (\<forall>field \<in> set flds. delim \<notin> set field)"
proof (induction n arbitrary: bytes flds)
  case 0
  then show ?case by (simp add: delimited_def split: if_splits)
next
  case (Suc n)
  from Suc.prems obtain field rest more where
    first: "read_field delim bytes = Some (field, rest)"
    and others: "read_fields delim n rest = Some more"
    and flds: "flds = field # more"
    by (auto split: option.splits)
  from read_field_Some [OF first] Suc.IH [OF others] flds
  show ?case by (simp add: delimited_def)
qed


lemma decode_fields_Some:
  assumes "decode_fields flds = Some ev"
  shows "flds = encode_fields ev"
proof -
  from assms obtain f_pid f_cpid f_ppid f_type f_mode f_modified f_exec f_src f_dst where
    flds: "flds = [f_pid, f_cpid, f_ppid, f_type, f_mode, f_modified, f_exec, f_src, f_dst]"
    by (auto simp add: decode_fields_def split: list.splits)
  from assms obtain pid cpid ppid type mode modified where
    parsed: "parse_signed32 f_pid = Some pid" "parse_signed32 f_cpid = Some cpid"
      "parse_signed32 f_ppid = Some ppid" "parse_unsigned32 f_type = Some type"
      "parse_unsigned16 f_mode = Some mode" "parse_bool f_modified = Some modified"
    and ev: "ev = \<lparr> m_pid = pid, m_cpid = cpid, m_ppid = ppid, m_eventType = type,
                    m_mode = mode, m_modified = modified, m_executable = f_exec,
                    m_src_path = f_src, m_dst_path = f_dst,
                    m_oppid = None, m_auditToken = None \<rparr>"
    unfolding flds by (auto simp add: decode_fields_def split: option.splits)
  show ?thesis
    unfolding flds ev encode_fields_def
    using parsed
    by (simp add: parse_signed32_Some parse_unsigned32_Some parse_unsigned16_Some parse_bool_Some)
qed




lemma encode_refuses:
  assumes "\<not> wire_safe delim ev"
  shows "encode delim ev = Inl DelimiterCollision"
proof -
  have "\<not> (\<forall>field \<in> set (encode_fields ev). delim \<notin> set field)"
    using assms by (auto simp add: encode_fields_def wire_safe_def)
  then show ?thesis
    by (simp add: encode_def list_all_iff)
qed

text \<open>Whatever the delimiter, a record whose source path is that one byte is refused.\<close>

lemma encode_refuses_for_every_delimiter:
  "encode delim (IOEvent_raw_mode pid cpid ppid type [delim] dst exec mode modified)
     = Inl DelimiterCollision"
  by (rule encode_refuses) (simp add: wire_safe_def IOEvent_raw_mode_def)

text \<open>The decoder accepts only what the encoder writes.\<close>

lemma encode_decode:
  assumes "decode delim bytes = Inr ev"
  shows "encode delim ev = Inr bytes"
proof -
  from assms obtain flds where
    read: "read_fields delim 9 bytes = Some flds" and dec: "decode_fields flds = Some ev"
    by (auto simp add: decode_def split: option.splits)
  from decode_fields_Some [OF dec] have flds: "flds = encode_fields ev" .
  from read_fields_Some [OF read] flds
  have "bytes = delimited delim (encode_fields ev)"
    and "\<forall>field \<in> set (encode_fields ev). delim \<notin> set field"
    by simp_all
  then show ?thesis
    by (simp add: encode_def list_all_iff)
qed

subsection \<open>The codec on concrete records\<close>



lemma digit_chars:
  "digit_char 0 = CHR ''0''" "digit_char 1 = CHR ''1''" "digit_char 2 = CHR ''2''"
  "digit_char 3 = CHR ''3''" "digit_char 4 = CHR ''4''" "digit_char 5 = CHR ''5''"
  "digit_char 6 = CHR ''6''" "digit_char 7 = CHR ''7''" "digit_char 8 = CHR ''8''"
  "digit_char 9 = CHR ''9''"
  unfolding digit_char_def by code_simp+

lemma to_string_examples:
  "to_string 100 = ''100''" "to_string 0 = ''0''" "to_string 1 = ''1''"
  "to_string 33 = ''33''" "to_string 33188 = ''33188''" "to_string (- 1) = ''-1''"
  by (simp_all add: to_string_def to_string_nat_step to_string_nat_small digit_chars digit_char_1)


lemma nine: "(9::nat) = Suc (Suc (Suc (Suc (Suc (Suc (Suc (Suc (Suc 0))))))))"
  by simp

lemma decode_truncated:
  "decode CHR ''|'' ''100|0|1|33|33188|0|/bin/sh|/tmp'' = Inl MalformedRecord"
  unfolding decode_def nine by simp






text \<open>
  Bytes that the encoder does not write are malformed: a number with leading zeros, a
  negative zero.
\<close>

lemma parse_decimal_leading_zero: "parse_decimal ''0100'' = None"
  by (simp add: parse_decimal_def parse_int_def parse_nat_def is_digit_def to_string_examples)

lemma parse_decimal_negative_zero: "parse_decimal ''-0'' = None"
  by (simp add: parse_decimal_def parse_int_def parse_nat_def is_digit_def to_string_examples)

lemma decode_leading_zeros:
  "decode CHR ''|'' ''0100|0|1|33|33188|0|/bin/sh|/tmp/a||'' = Inl MalformedRecord"
  unfolding decode_def nine
  by (simp add: decode_fields_def parse_signed32_def parse_decimal_leading_zero)

lemma decode_negative_zero:
  "decode CHR ''|'' ''-0|0|1|33|33188|0|/bin/sh|/tmp/a||'' = Inl MalformedRecord"
  unfolding decode_def nine
  by (simp add: decode_fields_def parse_signed32_def parse_decimal_negative_zero)

end
